theory Spec2Isabelle
  imports Main "HOL-Library.Sublist"
begin

section \<open>fitshead: printing the headers of FITS files\<close>

text \<open>
  A shallow embedding of \<^verbatim>\<open>astropy/io/fits/scripts/fitshead.py\<close>: the class
  \<^verbatim>\<open>HeaderFormatter\<close> (\<^verbatim>\<open>__init__\<close>, \<^verbatim>\<open>parse\<close>, \<^verbatim>\<open>_get_header\<close>,
  \<^verbatim>\<open>_format_hdulist\<close>), its subclass \<^verbatim>\<open>JSONHeaderFormatter\<close> and the entry
  point \<^verbatim>\<open>main\<close>. Exceptions are values of a sum type, the loops are recursive
  functions, and what the module calls but does not define (the FITS decoder, the
  built-ins \<^verbatim>\<open>int\<close> and \<^verbatim>\<open>format\<close>, \<^verbatim>\<open>os.linesep\<close>, \<^verbatim>\<open>json.dumps\<close>) is a
  parameter: a field of the objects the decoder hands out, or of the record
  \<open>runtime\<close>.
\<close>

subsection \<open>Data model\<close>

text \<open>
  A key of \<^verbatim>\<open>hdukeys\<close> is, dynamically, an \<^verbatim>\<open>int\<close>, a \<^verbatim>\<open>str\<close> or a tuple
  \<^verbatim>\<open>(str, int)\<close>.
\<close>

datatype hdukey = Index int | Name string | NameVer string int

text \<open>
  The exceptions the module raises or lets through. \<^verbatim>\<open>FormattingException\<close> carries
  its message; \<^verbatim>\<open>ValueError\<close> is what \<^verbatim>\<open>int\<close> raises on a literal it rejects.
\<close>

datatype exn = FormattingException string | ValueError

text \<open>
  What \<^verbatim>\<open>self.hdulist[hdukey]\<close> may raise. \<^verbatim>\<open>KeyError\<close> carries the text that
  \<^verbatim>\<open>e.message\<close> formats to.
\<close>

datatype lookup_error = IndexError | KeyError string

text \<open>
  A header object of the decoder, as far as the module uses it: \<^verbatim>\<open>keys()\<close>,
  \<^verbatim>\<open>values()\<close> and \<^verbatim>\<open>tostring(sep, padding)\<close>. The module never inspects a header
  value, so the type of values is a parameter.
\<close>

record 'v header =
  hdr_keys :: "string list"
  hdr_values :: "'v list"
  hdr_tostring :: "string \<Rightarrow> bool \<Rightarrow> string"

record 'v hdu =
  hdu_header :: "'v header"

text \<open>
  The opened container: \<^verbatim>\<open>filename()\<close>, \<^verbatim>\<open>len(...)\<close> and item access.
\<close>

record 'v hdulist =
  hdul_filename :: string
  hdul_len :: nat
  hdul_getitem :: "hdukey \<Rightarrow> lookup_error + 'v hdu"

text \<open>
  The Python objects that \<^verbatim>\<open>JSONHeaderFormatter\<close> builds and hands to
  \<^verbatim>\<open>json.dumps\<close>. A dictionary is an association list in insertion order.
\<close>

datatype 'v pyobj =
    PyInt int
  | PyStr string
  | PyTuple "'v pyobj list"
  | PyList "'v pyobj list"
  | PyDict "(string \<times> 'v pyobj) list"
  | PyVal 'v

text \<open>
  What the module takes from the interpreter and its libraries:
  \<^item> \<open>int_of_str s\<close> is \<^verbatim>\<open>int(s)\<close>, \<open>None\<close> when it raises \<^verbatim>\<open>ValueError\<close>;
  \<^item> \<open>format_key k\<close> is how \<^verbatim>\<open>str.format\<close> renders a key;
  \<^item> \<open>linesep\<close> is \<^verbatim>\<open>os.linesep\<close>;
  \<^item> \<open>fits_open f\<close> is \<^verbatim>\<open>fits.open(f)\<close>, \<open>Inl m\<close> when it raises an
    \<^verbatim>\<open>IOError\<close> whose \<^verbatim>\<open>message\<close> is \<open>m\<close>;
  \<^item> \<open>json_dumps n obj\<close> is \<^verbatim>\<open>json.dumps(obj, indent=n)\<close>, taken to return: the
    values of a header are such that the encoder accepts them.
  An exception of the decoder other than \<^verbatim>\<open>IOError\<close>, \<^verbatim>\<open>IndexError\<close> and
  \<^verbatim>\<open>KeyError\<close> is outside the model.
\<close>

record 'v runtime =
  int_of_str :: "string \<Rightarrow> int option"
  format_key :: "hdukey \<Rightarrow> string"
  linesep :: string
  fits_open :: "string \<Rightarrow> string + 'v hdulist"
  json_dumps :: "nat \<Rightarrow> 'v pyobj \<Rightarrow> string"

text \<open>The namespace that \<^verbatim>\<open>argparse\<close> returns: \<^verbatim>\<open>--ext\<close>, \<^verbatim>\<open>--json\<close>, the filenames.\<close>

record args =
  arg_ext :: "string option"
  arg_json :: bool
  arg_filename :: "string list"

text \<open>
  What a run of \<^verbatim>\<open>main\<close> leaves behind: the strings given to \<^verbatim>\<open>print\<close>, the
  messages given to \<^verbatim>\<open>log.error\<close>, and the exception that left \<^verbatim>\<open>main\<close>, if any.
\<close>

record outcome =
  printed :: "string list"
  logged :: "string list"
  raised :: "exn option"

subsection \<open>String helpers: \<^verbatim>\<open>str.split\<close> and \<^verbatim>\<open>str.join\<close>\<close>

text \<open>
  \<^verbatim>\<open>s.split(c)\<close> for a one-character separator: the result is never empty, and an
  empty string splits into one empty part.
\<close>

fun split :: "char \<Rightarrow> string \<Rightarrow> string list" where
  "split c [] = [[]]"
| "split c (x # xs) =
     (if x = c then [] # split c xs
      else (x # hd (split c xs)) # tl (split c xs))"

fun join :: "string \<Rightarrow> string list \<Rightarrow> string" where
  "join sep [] = []"
| "join sep [p] = p"
| "join sep (p # q # ps) = p @ sep @ join sep (q # ps)"

subsection \<open>\<^verbatim>\<open>HeaderFormatter\<close>\<close>

text \<open>\<^verbatim>\<open>__init__\<close>: the object is its \<^verbatim>\<open>hdulist\<close>.\<close>

definition HeaderFormatter :: "'v runtime \<Rightarrow> string \<Rightarrow> exn + 'v hdulist" where
  "HeaderFormatter R filename =
     (case fits_open R filename of
        Inl message \<Rightarrow> Inl (FormattingException message)
      | Inr hdulist \<Rightarrow> Inr hdulist)"

text \<open>
  The first half of \<^verbatim>\<open>parse\<close>: the keys of the items to display. The second
  \<^verbatim>\<open>int\<close> is called inside the \<^verbatim>\<open>except ValueError\<close> handler, so its own
  \<^verbatim>\<open>ValueError\<close> is not caught there.
\<close>

definition hdukeys :: "'v runtime \<Rightarrow> 'v hdulist \<Rightarrow> string option \<Rightarrow> exn + hdukey list" where
  "hdukeys R hdulist extension =
     (case extension of
        None \<Rightarrow> Inr (map (\<lambda>i. Index (int i)) [0..<hdul_len hdulist])
      | Some e \<Rightarrow>
          (case int_of_str R e of
             Some n \<Rightarrow> Inr [Index n]
           | None \<Rightarrow>
               (let parts = split CHR '','' e in
                if length parts > 1 then
                  (let extname = join '','' (butlast parts) in
                   case int_of_str R (last parts) of
                     None \<Rightarrow> Inl ValueError
                   | Some extver \<Rightarrow> Inr [NameVer extname extver])
                else Inr [Name e])))"

text \<open>\<^verbatim>\<open>_get_header\<close>.\<close>

definition get_header :: "'v runtime \<Rightarrow> 'v hdulist \<Rightarrow> hdukey \<Rightarrow> exn + 'v header" where
  "get_header R hdulist hdukey =
     (case hdul_getitem hdulist hdukey of
        Inr u \<Rightarrow> Inr (hdu_header u)
      | Inl IndexError \<Rightarrow>
          Inl (FormattingException
                 (hdul_filename hdulist @ '': Extension #'' @ format_key R hdukey @ '' not found.''))
      | Inl (KeyError message) \<Rightarrow>
          Inl (FormattingException (hdul_filename hdulist @ '': '' @ message)))"

text \<open>
  \<^verbatim>\<open>_format_hdulist\<close> of the base class: the loop over \<^verbatim>\<open>enumerate(hdukeys)\<close>, with
  the index \<open>i\<close> and the text so far.
\<close>

fun format_loop :: "'v runtime \<Rightarrow> 'v hdulist \<Rightarrow> nat \<Rightarrow> hdukey list \<Rightarrow> string \<Rightarrow> exn + string" where
  "format_loop R hdulist i [] text = Inr text"
| "format_loop R hdulist i (key # keys) text =
     (let prefix = (if i > 0 then linesep R @ linesep R else []) in
      case get_header R hdulist key of
        Inl e \<Rightarrow> Inl e
      | Inr hdr \<Rightarrow>
          format_loop R hdulist (Suc i) keys
            (text @ prefix @ ''# HDU '' @ format_key R key @ '' in '' @ hdul_filename hdulist
               @ '':'' @ linesep R @ hdr_tostring hdr (linesep R) False))"

definition format_hdulist :: "'v runtime \<Rightarrow> 'v hdulist \<Rightarrow> hdukey list \<Rightarrow> exn + string" where
  "format_hdulist R hdulist keys = format_loop R hdulist 0 keys []"

subsection \<open>\<^verbatim>\<open>JSONHeaderFormatter\<close>\<close>

text \<open>
  \<^verbatim>\<open>d[k] = v\<close> on an \<^verbatim>\<open>OrderedDict\<close>: a key already there keeps its place and takes
  the new value, a new key goes to the end. \<^verbatim>\<open>OrderedDict(pairs)\<close> stores the pairs
  one after the other.
\<close>

fun setitem :: "('k \<times> 'a) list \<Rightarrow> 'k \<Rightarrow> 'a \<Rightarrow> ('k \<times> 'a) list" where
  "setitem [] k v = [(k, v)]"
| "setitem ((k', v') # d) k v = (if k' = k then (k', v) # d else (k', v') # setitem d k v)"

definition OrderedDict :: "('k \<times> 'a) list \<Rightarrow> ('k \<times> 'a) list" where
  "OrderedDict pairs = foldl (\<lambda>d (k, v). setitem d k v) [] pairs"

text \<open>A key as a Python object.\<close>

fun key_obj :: "hdukey \<Rightarrow> 'v pyobj" where
  "key_obj (Index n) = PyInt n"
| "key_obj (Name s) = PyStr s"
| "key_obj (NameVer s n) = PyTuple [PyStr s, PyInt n]"

text \<open>\<^verbatim>\<open>mydict(zip(hdr.keys(), hdr.values()))\<close>.\<close>

definition cards :: "'v header \<Rightarrow> (string \<times> 'v pyobj) list" where
  "cards hdr = OrderedDict (zip (hdr_keys hdr) (map PyVal (hdr_values hdr)))"

text \<open>The loop that fills \<^verbatim>\<open>js['hdulist']\<close>, with the list so far.\<close>

fun json_loop :: "'v runtime \<Rightarrow> 'v hdulist \<Rightarrow> hdukey list \<Rightarrow> 'v pyobj list \<Rightarrow> exn + 'v pyobj list" where
  "json_loop R hdulist [] js_hdulist = Inr js_hdulist"
| "json_loop R hdulist (key # keys) js_hdulist =
     (let hdudict = setitem [] ''hdu'' (key_obj key) in
      case get_header R hdulist key of
        Inl e \<Rightarrow> Inl e
      | Inr hdr \<Rightarrow>
          (let hdudict = setitem hdudict ''cards'' (PyDict (cards hdr)) in
           json_loop R hdulist keys (js_hdulist @ [PyDict hdudict])))"

definition json_format_hdulist :: "'v runtime \<Rightarrow> 'v hdulist \<Rightarrow> hdukey list \<Rightarrow> exn + string" where
  "json_format_hdulist R hdulist keys =
     (let js = setitem [] ''filename'' (PyStr (hdul_filename hdulist)) in
      case json_loop R hdulist keys [] of
        Inl e \<Rightarrow> Inl e
      | Inr js_hdulist \<Rightarrow>
          (let js = setitem js ''hdulist'' (PyList js_hdulist) in
           Inr (json_dumps R 2 (PyDict js))))"

subsection \<open>\<^verbatim>\<open>parse\<close> and \<^verbatim>\<open>main\<close>\<close>

text \<open>
  \<^verbatim>\<open>parse\<close>, with the class of the object as a flag: the keys, then the
  \<^verbatim>\<open>_format_hdulist\<close> of that class.
\<close>

definition parse :: "'v runtime \<Rightarrow> bool \<Rightarrow> 'v hdulist \<Rightarrow> string option \<Rightarrow> exn + string" where
  "parse R is_json hdulist extension =
     (case hdukeys R hdulist extension of
        Inl e \<Rightarrow> Inl e
      | Inr keys \<Rightarrow>
          (if is_json then json_format_hdulist R hdulist keys
           else format_hdulist R hdulist keys))"

text \<open>The argument of one \<^verbatim>\<open>print\<close> call of \<^verbatim>\<open>main\<close>: construct the object, then parse.\<close>

definition formatted :: "'v runtime \<Rightarrow> args \<Rightarrow> string \<Rightarrow> exn + string" where
  "formatted R a filename =
     (case HeaderFormatter R filename of
        Inl e \<Rightarrow> Inl e
      | Inr hdulist \<Rightarrow> parse R (arg_json a) hdulist (arg_ext a))"

text \<open>
  The \<^verbatim>\<open>for\<close> loop of \<^verbatim>\<open>main\<close>: what was printed, and the exception that ended
  the loop, if one did.
\<close>

fun print_all :: "'v runtime \<Rightarrow> args \<Rightarrow> string list \<Rightarrow> string list \<times> exn option" where
  "print_all R a [] = ([], None)"
| "print_all R a (filename # rest) =
     (case formatted R a filename of
        Inl e \<Rightarrow> ([], Some e)
      | Inr s \<Rightarrow> (case print_all R a rest of (out, r) \<Rightarrow> (s # out, r)))"

text \<open>
  \<^verbatim>\<open>main\<close>, from the parsed arguments on: the \<^verbatim>\<open>try\<close> statement encloses the whole
  loop, and its one handler is for \<^verbatim>\<open>FormattingException\<close>.
\<close>

definition main :: "'v runtime \<Rightarrow> args \<Rightarrow> outcome" where
  "main R a =
     (case print_all R a (arg_filename a) of
        (out, None) \<Rightarrow> \<lparr>printed = out, logged = [], raised = None\<rparr>
      | (out, Some (FormattingException message)) \<Rightarrow>
          \<lparr>printed = out, logged = [message], raised = None\<rparr>
      | (out, Some ValueError) \<Rightarrow> \<lparr>printed = out, logged = [], raised = Some ValueError\<rparr>)"

subsection \<open>An example runtime\<close>

text \<open>
  For evaluating the definitions at concrete inputs: a model of the built-ins of
  CPython 2.7 on ASCII text, a small decoder, and three files, the second of which
  does not open. The theorems below hold for every runtime; only their instances at
  concrete inputs use this one.
\<close>

datatype scalar = SNone | SBool bool | SInt int | SStr string

definition digit_char :: "nat \<Rightarrow> char" where
  "digit_char d = ''0123456789abcdef'' ! d"

fun str_nat :: "nat \<Rightarrow> string" where
  "str_nat n = (if n < 10 then [digit_char n] else str_nat (n div 10) @ [digit_char (n mod 10)])"

definition str_int :: "int \<Rightarrow> string" where
  "str_int i = (if i < 0 then CHR ''-'' # str_nat (nat (- i)) else str_nat (nat i))"

text \<open>
  \<^verbatim>\<open>int(s)\<close> on a decimal literal: blanks around it, a sign, digits.
\<close>

definition is_space :: "char \<Rightarrow> bool" where
  "is_space c = (c \<in> set [CHR '' '', CHR 0x09, CHR 0x0A, CHR 0x0B, CHR 0x0C, CHR 0x0D])"

definition strip :: "string \<Rightarrow> string" where
  "strip s = rev (dropWhile is_space (rev (dropWhile is_space s)))"

definition digit_value :: "char \<Rightarrow> nat option" where
  "digit_value c = map_of (zip ''0123456789'' [0..<10]) c"

fun nat_of_digits :: "nat \<Rightarrow> string \<Rightarrow> nat option" where
  "nat_of_digits acc [] = Some acc"
| "nat_of_digits acc (c # cs) =
     (case digit_value c of None \<Rightarrow> None | Some d \<Rightarrow> nat_of_digits (10 * acc + d) cs)"

definition py_int :: "string \<Rightarrow> int option" where
  "py_int s =
     (case strip s of
        [] \<Rightarrow> None
      | c # cs \<Rightarrow>
          if c = CHR ''-'' then
            (if cs = [] then None else map_option (\<lambda>n. - int n) (nat_of_digits 0 cs))
          else if c = CHR ''+'' then
            (if cs = [] then None else map_option int (nat_of_digits 0 cs))
          else map_option int (nat_of_digits 0 (c # cs)))"

text \<open>
  \<^verbatim>\<open>'{0}'.format(key)\<close>: an \<^verbatim>\<open>int\<close> in decimal, a \<^verbatim>\<open>str\<close> as it is, a tuple as
  the \<^verbatim>\<open>repr\<close> of its items in parentheses.
\<close>

definition hexbyte :: "nat \<Rightarrow> string" where
  "hexbyte n = [digit_char (n div 16), digit_char (n mod 16)]"

definition repr_char :: "char \<Rightarrow> char \<Rightarrow> string" where
  "repr_char quote c =
     (if c = quote \<or> c = CHR 0x5C then [CHR 0x5C, c]
      else if c = CHR 0x09 then [CHR 0x5C, CHR ''t'']
      else if c = CHR 0x0A then [CHR 0x5C, CHR ''n'']
      else if c = CHR 0x0D then [CHR 0x5C, CHR ''r'']
      else if (of_char c :: nat) < 32 \<or> 127 \<le> (of_char c :: nat)
        then [CHR 0x5C, CHR ''x''] @ hexbyte (of_char c)
      else [c])"

definition py_repr :: "string \<Rightarrow> string" where
  "py_repr s =
     (let quote = (if CHR 0x27 \<in> set s \<and> CHR 0x22 \<notin> set s then CHR 0x22 else CHR 0x27)
      in quote # concat (map (repr_char quote) s) @ [quote])"

fun py_format_key :: "hdukey \<Rightarrow> string" where
  "py_format_key (Index n) = str_int n"
| "py_format_key (Name s) = s"
| "py_format_key (NameVer s n) = ''('' @ py_repr s @ '', '' @ str_int n @ '')''"

text \<open>
  \<^verbatim>\<open>json.dumps(obj, indent=n)\<close> with the default separators of CPython 2.7
  (a comma and a blank between items, a colon and a blank after a key); a tuple is
  written as a list.
\<close>

definition json_char :: "char \<Rightarrow> string" where
  "json_char c =
     (if c = CHR 0x22 \<or> c = CHR 0x5C then [CHR 0x5C, c]
      else if c = CHR 0x08 then [CHR 0x5C, CHR ''b'']
      else if c = CHR 0x09 then [CHR 0x5C, CHR ''t'']
      else if c = CHR 0x0A then [CHR 0x5C, CHR ''n'']
      else if c = CHR 0x0C then [CHR 0x5C, CHR ''f'']
      else if c = CHR 0x0D then [CHR 0x5C, CHR ''r'']
      else if (of_char c :: nat) < 32
        then [CHR 0x5C, CHR ''u'', CHR ''0'', CHR ''0''] @ hexbyte (of_char c)
      else [c])"

definition json_str :: "string \<Rightarrow> string" where
  "json_str s = CHR 0x22 # concat (map json_char s) @ [CHR 0x22]"

definition newline_indent :: "nat \<Rightarrow> nat \<Rightarrow> string" where
  "newline_indent n level = CHR 0x0A # replicate (n * level) CHR '' ''"

definition json_container :: "string \<Rightarrow> string \<Rightarrow> nat \<Rightarrow> nat \<Rightarrow> string list \<Rightarrow> string" where
  "json_container opening closing n level items =
     (if items = [] then opening @ closing
      else opening @ newline_indent n (Suc level)
           @ join ('', '' @ newline_indent n (Suc level)) items
           @ newline_indent n level @ closing)"

fun json_scalar :: "scalar \<Rightarrow> string" where
  "json_scalar SNone = ''null''"
| "json_scalar (SBool b) = (if b then ''true'' else ''false'')"
| "json_scalar (SInt i) = str_int i"
| "json_scalar (SStr s) = json_str s"

fun py_json :: "nat \<Rightarrow> nat \<Rightarrow> scalar pyobj \<Rightarrow> string" where
  "py_json n level (PyInt i) = str_int i"
| "py_json n level (PyStr s) = json_str s"
| "py_json n level (PyVal v) = json_scalar v"
| "py_json n level (PyTuple xs) =
     json_container ''['' '']'' n level (map (py_json n (Suc level)) xs)"
| "py_json n level (PyList xs) =
     json_container ''['' '']'' n level (map (py_json n (Suc level)) xs)"
| "py_json n level (PyDict kvs) =
     json_container ''{'' ''}'' n level
       (map (\<lambda>kv. json_str (fst kv) @ '': '' @ py_json n (Suc level) (snd kv)) kvs)"

text \<open>
  An example decoder, after the \<^verbatim>\<open>HDUList\<close> of the library. A container is a
  filename and its units, each with a name, a version and a header. An integer key
  indexes the units as a Python list does. A name, alone or with a version, is
  stripped and compared in upper case with the names of the units, \<^verbatim>\<open>PRIMARY\<close>
  standing for the first unit as well; the first unit that matches is taken. When
  none matches, the \<^verbatim>\<open>KeyError\<close> has the text \<^verbatim>\<open>Extension <repr(key)> not found.\<close>
\<close>

definition upper :: "string \<Rightarrow> string" where
  "upper s =
     map (\<lambda>c. case map_of (zip ''abcdefghijklmnopqrstuvwxyz'' ''ABCDEFGHIJKLMNOPQRSTUVWXYZ'') c of
                 None \<Rightarrow> c
               | Some C \<Rightarrow> C) s"

fun index_of :: "string \<Rightarrow> int option \<Rightarrow> nat \<Rightarrow> (string \<times> int \<times> 'h) list \<Rightarrow> nat option" where
  "index_of k ver idx [] = None"
| "index_of k ver idx (u # us) =
     (if (upper (strip (fst u)) = k \<or> (k = ''PRIMARY'' \<and> idx = 0))
         \<and> (case ver of None \<Rightarrow> True | Some v \<Rightarrow> v = fst (snd u))
      then Some idx
      else index_of k ver (Suc idx) us)"

definition ex_getitem :: "(string \<times> int \<times> scalar header) list \<Rightarrow> hdukey \<Rightarrow> lookup_error + scalar hdu" where
  "ex_getitem units key =
     (case key of
        Index i \<Rightarrow>
          (if 0 \<le> i \<and> i < int (length units)
             then Inr \<lparr>hdu_header = snd (snd (units ! nat i))\<rparr>
           else if i < 0 \<and> - int (length units) \<le> i
             then Inr \<lparr>hdu_header = snd (snd (units ! nat (int (length units) + i)))\<rparr>
           else Inl IndexError)
      | Name s \<Rightarrow>
          (case index_of (upper (strip s)) None 0 units of
             Some j \<Rightarrow> Inr \<lparr>hdu_header = snd (snd (units ! j))\<rparr>
           | None \<Rightarrow> Inl (KeyError (''Extension '' @ py_repr s @ '' not found.'')))
      | NameVer s v \<Rightarrow>
          (case index_of (upper (strip s)) (Some v) 0 units of
             Some j \<Rightarrow> Inr \<lparr>hdu_header = snd (snd (units ! j))\<rparr>
           | None \<Rightarrow>
               Inl (KeyError (''Extension '' @ py_format_key (NameVer s v) @ '' not found.''))))"

definition ex_hdulist :: "string \<Rightarrow> (string \<times> int \<times> scalar header) list \<Rightarrow> scalar hdulist" where
  "ex_hdulist fname units =
     \<lparr>hdul_filename = fname, hdul_len = length units, hdul_getitem = ex_getitem units\<rparr>"

text \<open>An example header: its text is its card images, joined by the separator.\<close>

definition ex_header :: "(string \<times> scalar \<times> string) list \<Rightarrow> scalar header" where
  "ex_header cs =
     \<lparr>hdr_keys = map fst cs, hdr_values = map (\<lambda>c. fst (snd c)) cs,
      hdr_tostring = (\<lambda>sep padding. join sep (map (\<lambda>c. snd (snd c)) cs @ [''END'']))\<rparr>"

definition primary_header :: "scalar header" where
  "primary_header =
     ex_header [(''SIMPLE'', SBool True, ''SIMPLE  = T''), (''NAXIS'', SInt 0, ''NAXIS   = 0'')]"

definition sci_header :: "scalar header" where
  "sci_header =
     ex_header [(''XTENSION'', SStr ''IMAGE'', ''XTENSION= IMAGE''), (''BITPIX'', SInt 8, ''BITPIX  = 8'')]"

definition history_header :: "scalar header" where
  "history_header =
     ex_header [(''SIMPLE'', SBool True, ''SIMPLE  = T''), (''HISTORY'', SStr ''made'', ''HISTORY made''),
                (''NAXIS'', SInt 0, ''NAXIS   = 0''), (''HISTORY'', SStr ''fixed'', ''HISTORY fixed'')]"

definition two_units :: "string \<Rightarrow> scalar hdulist" where
  "two_units fname = ex_hdulist fname [(''PRIMARY'', 1, primary_header), (''SCI'', 1, sci_header)]"

definition ex_open :: "string \<Rightarrow> string + scalar hdulist" where
  "ex_open fname =
     (if fname = ''a.fits'' then Inr (two_units ''a.fits'')
      else if fname = ''c.fits'' then Inr (ex_hdulist ''c.fits'' [(''PRIMARY'', 1, history_header)])
      else Inl ''Empty or corrupt FITS file'')"

definition ex_runtime :: "scalar runtime" where
  "ex_runtime =
     \<lparr>int_of_str = py_int, format_key = py_format_key, linesep = [CHR 0x0A],
      fits_open = ex_open, json_dumps = (\<lambda>n. py_json n 0)\<rparr>"

subsection \<open>Notions of the statements\<close>

text \<open>
  What the text formatter is to write for one key: the line that names the key and
  the file, then the header as the decoder writes it.
\<close>

definition block :: "'v runtime \<Rightarrow> 'v hdulist \<Rightarrow> hdukey \<Rightarrow> 'v header \<Rightarrow> string" where
  "block R hdulist key hdr =
     ''# HDU '' @ format_key R key @ '' in '' @ hdul_filename hdulist @ '':'' @ linesep R
       @ hdr_tostring hdr (linesep R) False"

text \<open>What the JSON formatter is to put into \<^verbatim>\<open>hdulist\<close> for one key.\<close>

definition hdudict :: "hdukey \<Rightarrow> 'v header \<Rightarrow> 'v pyobj" where
  "hdudict key hdr = PyDict [(''hdu'', key_obj key), (''cards'', PyDict (cards hdr))]"

section \<open>Properties\<close>

subsection \<open>Splitting and joining\<close>

lemma split_nonempty: "split c s \<noteq> []"
  by (induction s) auto

lemma length_split: "length (split c s) = Suc (length (filter (\<lambda>x. x = c) s))"
  by (induction s) (auto simp: split_nonempty)

lemma split_no_sep: "c \<notin> set s \<Longrightarrow> split c s = [s]"
  by (induction s) auto

lemma split_many_iff: "1 < length (split c s) \<longleftrightarrow> c \<in> set s"
proof -
  have "filter (\<lambda>x. x = c) s \<noteq> [] \<longleftrightarrow> c \<in> set s"
    by (auto simp: filter_empty_conv)
  then show ?thesis
    by (simp add: length_split)
qed

text \<open>Joining the parts with the separator gives the string back.\<close>

lemma join_split: "join [c] (split c s) = s"
proof (induction s)
  case Nil
  then show ?case by simp
next
  case (Cons x s)
  obtain p ps where sp: "split c s = p # ps"
    using split_nonempty [of c s] by (cases "split c s") auto
  show ?case
  proof (cases "x = c")
    case True
    with Cons sp show ?thesis by simp
  next
    case False
    with Cons sp show ?thesis by (cases ps) auto
  qed
qed

lemma join_snoc: "ps \<noteq> [] \<Longrightarrow> join sep (ps @ [p]) = join sep ps @ sep @ p"
  by (induction sep ps rule: join.induct) auto

lemma join_butlast_last:
  "1 < length ps \<Longrightarrow> join sep (butlast ps) @ sep @ last ps = join sep ps"
proof -
  assume l: "1 < length ps"
  then have ne: "ps \<noteq> []" and bne: "butlast ps \<noteq> []"
    by (auto simp: butlast_conv_take)
  have "join sep (butlast ps @ [last ps]) = join sep (butlast ps) @ sep @ last ps"
    using bne by (rule join_snoc)
  with ne show ?thesis by simp
qed

subsection \<open>Literals of the example runtime\<close>

lemma py_int_2: "py_int ''2'' = Some 2"
  by code_simp

lemma py_int_7: "py_int ''7'' = Some 7"
  by code_simp

lemma py_int_x: "py_int ''x'' = None"
  by code_simp

lemma py_int_SCI: "py_int ''SCI'' = None"
  by code_simp

lemma py_int_SCI_x: "py_int ''SCI,x'' = None"
  by code_simp

lemma py_int_AB2: "py_int ''A,B,2'' = None"
  by code_simp

lemma split_AB2: "split CHR '','' ''A,B,2'' = [''A'', ''B'', ''2'']"
  by simp

lemma split_SCI_x: "split CHR '','' ''SCI,x'' = [''SCI'', ''x'']"
  by simp

subsection \<open>The keys that \<^verbatim>\<open>parse\<close> selects\<close>

text \<open>
  Claim C4. With no extension given, the keys are the integers \<open>0, 1, ..., N - 1\<close> in
  that order, \<open>N\<close> being the length of the container.
\<close>

theorem hdukeys_absent:
  "hdukeys R hdulist None = Inr (map (\<lambda>i. Index (int i)) [0..<hdul_len hdulist])"
  by (simp add: hdukeys_def)

theorem hdukeys_absent_two_units:
  "hdukeys ex_runtime (two_units ''a.fits'') None = Inr [Index 0, Index 1]"
  using hdukeys_absent [of ex_runtime "two_units ''a.fits''"]
  by (simp add: two_units_def ex_hdulist_def upt_rec)

text \<open>
  Claim C5. An extension that \<^verbatim>\<open>int\<close> accepts gives the one key that is this integer,
  whatever the length of the container; an extension that \<^verbatim>\<open>int\<close> rejects and that
  has no comma gives the one key that is the string itself.
\<close>

theorem hdukeys_integer_or_bare_name:
  "(int_of_str R e = Some n \<longrightarrow> hdukeys R hdulist (Some e) = Inr [Index n]) \<and>
   (int_of_str R e = None \<and> CHR '','' \<notin> set e \<longrightarrow> hdukeys R hdulist (Some e) = Inr [Name e])"
  by (simp add: hdukeys_def split_no_sep)

theorem hdukeys_integer_or_bare_name_witness:
  "hdukeys ex_runtime (two_units ''a.fits'') (Some ''7'') = Inr [Index 7] \<and>
   hdul_len (two_units ''a.fits'') = 2 \<and>
   hdukeys ex_runtime (two_units ''a.fits'') (Some ''SCI'') = Inr [Name ''SCI'']"
proof -
  have i: "int_of_str ex_runtime ''7'' = Some 7"
    by (simp add: ex_runtime_def py_int_7)
  have n: "int_of_str ex_runtime ''SCI'' = None \<and> CHR '','' \<notin> set ''SCI''"
    by (simp add: ex_runtime_def py_int_SCI)
  have l: "hdul_len (two_units ''a.fits'') = 2"
    by (simp add: two_units_def ex_hdulist_def)
  from hdukeys_integer_or_bare_name [of ex_runtime "''7''" 7 "two_units ''a.fits''"] i
    hdukeys_integer_or_bare_name [of ex_runtime "''SCI''" 0 "two_units ''a.fits''"] n l
  show ?thesis by blast
qed

text \<open>
  Claim C3. An extension that \<^verbatim>\<open>int\<close> rejects and that splits at its commas into
  more than one part, the last of which \<^verbatim>\<open>int\<close> reads as \<open>v\<close>, gives one key: the
  pair of the other parts joined by commas, and \<open>v\<close>. The name, a comma and the last
  part make up the extension again, so the name is all of it before its last comma.
\<close>

theorem hdukeys_name_version:
  assumes "int_of_str R e = None"
    and "1 < length (split CHR '','' e)"
    and "int_of_str R (last (split CHR '','' e)) = Some v"
  shows "hdukeys R hdulist (Some e) = Inr [NameVer (join '','' (butlast (split CHR '','' e))) v] \<and>
         join '','' (butlast (split CHR '','' e)) @ '','' @ last (split CHR '','' e) = e"
proof -
  have "join '','' (butlast (split CHR '','' e)) @ '','' @ last (split CHR '','' e)
          = join '','' (split CHR '','' e)"
    using assms(2) by (rule join_butlast_last)
  also have "\<dots> = e"
    by (rule join_split)
  finally show ?thesis
    using assms by (simp add: hdukeys_def)
qed

theorem hdukeys_name_version_witness:
  "hdukeys ex_runtime (two_units ''a.fits'') (Some ''A,B,2'') = Inr [NameVer ''A,B'' 2]"
proof -
  have 1: "int_of_str ex_runtime ''A,B,2'' = None"
    by (simp add: ex_runtime_def py_int_AB2)
  have 2: "1 < length (split CHR '','' ''A,B,2'')"
    by (simp add: split_AB2)
  have 3: "int_of_str ex_runtime (last (split CHR '','' ''A,B,2'')) = Some 2"
    by (simp add: split_AB2 ex_runtime_def py_int_2)
  from hdukeys_name_version [OF 1 2 3, of "two_units ''a.fits''"]
  show ?thesis by (simp add: split_AB2)
qed

subsection \<open>\<^verbatim>\<open>_get_header\<close>\<close>



lemma get_header_found:
  "hdul_getitem hdulist key = Inr u \<Longrightarrow> get_header R hdulist key = Inr (hdu_header u)"
  by (simp add: get_header_def)

text \<open>Whatever goes wrong in the lookup, the exception is a \<^verbatim>\<open>FormattingException\<close>.\<close>

lemma get_header_fails_with_FormattingException:
  "get_header R hdulist key = Inl e \<Longrightarrow> \<exists>message. e = FormattingException message"
  by (auto simp: get_header_def split: sum.splits lookup_error.splits)







lemma index_of_sci_1:
  "index_of ''SCI'' (Some 1) 0 [(''PRIMARY'', 1, primary_header), (''SCI'', 1, sci_header)] = Some 1"
  by (simp add: upper_def strip_def is_space_def)

lemma upper_strip_SCI: "upper (strip ''SCI'') = ''SCI''" "upper (strip ''sci '') = ''SCI''"
  by (simp_all add: upper_def strip_def is_space_def)


text \<open>The example decoder finds a unit by its name in any case, and by its version.\<close>

lemma get_header_two_units_sci_1:
  "hdul_getitem (two_units ''a.fits'') (NameVer ''sci '' 1) = Inr \<lparr>hdu_header = sci_header\<rparr>"
  by (simp add: two_units_def ex_hdulist_def ex_getitem_def upper_strip_SCI index_of_sci_1
      del: index_of.simps)








subsection \<open>The text of \<^verbatim>\<open>HeaderFormatter\<close>\<close>

lemma format_loop_step:
  "get_header R hdulist key = Inr hdr \<Longrightarrow>
   format_loop R hdulist i (key # keys) s =
     format_loop R hdulist (Suc i) keys
       (s @ (if i = 0 then [] else linesep R @ linesep R) @ block R hdulist key hdr)"
  by (simp add: block_def)

lemma format_loop_stop:
  "get_header R hdulist key = Inl e \<Longrightarrow> format_loop R hdulist i (key # keys) s = Inl e"
  by simp


text \<open>The first key without a header ends the loop with its exception.\<close>

lemma format_loop_fails:
  assumes "list_all2 (\<lambda>key hdr. get_header R hdulist key = Inr hdr) keys hdrs"
    and "get_header R hdulist bad = Inl e"
  shows "format_loop R hdulist i (keys @ bad # rest) s = Inl e"
  using assms
  by (induction keys hdrs arbitrary: i s rule: list_all2_induct)
    (simp_all add: format_loop_step format_loop_stop del: format_loop.simps(2))





subsection \<open>Ordered dictionaries\<close>













subsection \<open>The document of \<^verbatim>\<open>JSONHeaderFormatter\<close>\<close>

lemma json_loop_step:
  "get_header R hdulist key = Inr hdr \<Longrightarrow>
   json_loop R hdulist (key # keys) acc = json_loop R hdulist keys (acc @ [hdudict key hdr])"
  by (simp add: hdudict_def)

lemma json_loop_stop:
  "get_header R hdulist key = Inl e \<Longrightarrow> json_loop R hdulist (key # keys) acc = Inl e"
  by simp


lemma json_loop_fails:
  assumes "list_all2 (\<lambda>key hdr. get_header R hdulist key = Inr hdr) keys hdrs"
    and "get_header R hdulist bad = Inl e"
  shows "json_loop R hdulist (keys @ bad # rest) acc = Inl e"
  using assms
  by (induction keys hdrs arbitrary: acc rule: list_all2_induct)
    (simp_all add: json_loop_step json_loop_stop del: json_loop.simps(2))











subsection \<open>\<^verbatim>\<open>main\<close>\<close>

lemma formatted_open_fails:
  "fits_open R filename = Inl message \<Longrightarrow>
   formatted R a filename = Inl (FormattingException message)"
  by (simp add: formatted_def HeaderFormatter_def)

lemma formatted_opened:
  "fits_open R filename = Inr hdulist \<Longrightarrow>
   formatted R a filename = parse R (arg_json a) hdulist (arg_ext a)"
  by (simp add: formatted_def HeaderFormatter_def)

text \<open>The loop prints until a filename raises, and then it is over.\<close>

lemma print_all_stops:
  assumes "list_all2 (\<lambda>f s. formatted R a f = Inr s) pre outs"
    and "formatted R a bad = Inl e"
  shows "print_all R a (pre @ bad # post) = (outs, Some e)"
  using assms
  by (induction pre outs rule: list_all2_induct) simp_all

lemma print_all_complete:
  assumes "list_all2 (\<lambda>f s. formatted R a f = Inr s) fs outs"
  shows "print_all R a fs = (outs, None)"
  using assms
  by (induction fs outs rule: list_all2_induct) simp_all

lemma main_complete:
  assumes "list_all2 (\<lambda>f s. formatted R a f = Inr s) (arg_filename a) outs"
  shows "main R a = \<lparr>printed = outs, logged = [], raised = None\<rparr>"
  by (simp add: main_def print_all_complete [OF assms])

lemma formatted_a_fits:
  "formatted ex_runtime \<lparr>arg_ext = None, arg_json = False, arg_filename = fs\<rparr> ''a.fits'' =
     Inr ''# HDU 0 in a.fits:\<newline>SIMPLE  = T\<newline>NAXIS   = 0\<newline>END\<newline>\<newline># HDU 1 in a.fits:\<newline>XTENSION= IMAGE\<newline>BITPIX  = 8\<newline>END''"
proof -
  have o: "fits_open ex_runtime ''a.fits'' = Inr (two_units ''a.fits'')"
    by (simp add: ex_runtime_def ex_open_def)
  have k: "hdukeys ex_runtime (two_units ''a.fits'') None = Inr [Index 0, Index 1]"
    by (simp add: hdukeys_def two_units_def ex_hdulist_def upt_rec)
  have t: "format_hdulist ex_runtime (two_units ''a.fits'') [Index 0, Index 1] =
     Inr ''# HDU 0 in a.fits:\<newline>SIMPLE  = T\<newline>NAXIS   = 0\<newline>END\<newline>\<newline># HDU 1 in a.fits:\<newline>XTENSION= IMAGE\<newline>BITPIX  = 8\<newline>END''"
    by code_simp
  show ?thesis
    by (simp add: formatted_opened [OF o] parse_def k t)
qed

lemma formatted_c_fits:
  "formatted ex_runtime \<lparr>arg_ext = None, arg_json = False, arg_filename = fs\<rparr> ''c.fits'' =
     Inr ''# HDU 0 in c.fits:\<newline>SIMPLE  = T\<newline>HISTORY made\<newline>NAXIS   = 0\<newline>HISTORY fixed\<newline>END''"
proof -
  let ?c = "ex_hdulist ''c.fits'' [(''PRIMARY'', 1, history_header)]"
  have o: "fits_open ex_runtime ''c.fits'' = Inr ?c"
    by (simp add: ex_runtime_def ex_open_def)
  have k: "hdukeys ex_runtime ?c None = Inr [Index 0]"
    by (simp add: hdukeys_def ex_hdulist_def)
  have t: "format_hdulist ex_runtime ?c [Index 0] =
     Inr ''# HDU 0 in c.fits:\<newline>SIMPLE  = T\<newline>HISTORY made\<newline>NAXIS   = 0\<newline>HISTORY fixed\<newline>END''"
    by code_simp
  show ?thesis
    by (simp add: formatted_opened [OF o] parse_def k t)
qed

lemma open_b_fits: "fits_open ex_runtime ''b.fits'' = Inl ''Empty or corrupt FITS file''"
  by (simp add: ex_runtime_def ex_open_def)

text \<open>
  Claim C1, as the code has it. The \<^verbatim>\<open>try\<close> statement is around the loop, not inside
  it: when a filename raises a \<^verbatim>\<open>FormattingException\<close>, as it does when the file does
  not open, \<^verbatim>\<open>main\<close> has printed the text of each filename before it, logs the message
  of the exception, and returns. The filenames after it are not looked at.
\<close>

theorem main_stops_at_first_FormattingException:
  assumes "arg_filename a = pre @ bad # post"
    and "list_all2 (\<lambda>f s. formatted R a f = Inr s) pre outs"
    and "formatted R a bad = Inl (FormattingException message) \<or> fits_open R bad = Inl message"
  shows "main R a = \<lparr>printed = outs, logged = [message], raised = None\<rparr>"
proof -
  from assms(3) have "formatted R a bad = Inl (FormattingException message)"
    by (auto simp: formatted_open_fails)
  with assms(2) have "print_all R a (pre @ bad # post) = (outs, Some (FormattingException message))"
    by (rule print_all_stops)
  with assms(1) show ?thesis
    by (simp add: main_def)
qed

theorem main_stops_at_first_FormattingException_witness:
  "main ex_runtime
     \<lparr>arg_ext = None, arg_json = False, arg_filename = [''a.fits'', ''b.fits'', ''c.fits'']\<rparr> =
   \<lparr>printed = [''# HDU 0 in a.fits:\<newline>SIMPLE  = T\<newline>NAXIS   = 0\<newline>END\<newline>\<newline># HDU 1 in a.fits:\<newline>XTENSION= IMAGE\<newline>BITPIX  = 8\<newline>END''],
    logged = [''Empty or corrupt FITS file''], raised = None\<rparr>"
proof -
  let ?a = "\<lparr>arg_ext = None, arg_json = False, arg_filename = [''a.fits'', ''b.fits'', ''c.fits'']\<rparr>"
  have 1: "arg_filename ?a = [''a.fits''] @ ''b.fits'' # [''c.fits'']"
    by simp
  have 2: "list_all2 (\<lambda>f s. formatted ex_runtime ?a f = Inr s) [''a.fits'']
      [''# HDU 0 in a.fits:\<newline>SIMPLE  = T\<newline>NAXIS   = 0\<newline>END\<newline>\<newline># HDU 1 in a.fits:\<newline>XTENSION= IMAGE\<newline>BITPIX  = 8\<newline>END'']"
    by (simp add: formatted_a_fits)
  have 3: "formatted ex_runtime ?a ''b.fits'' = Inl (FormattingException ''Empty or corrupt FITS file'')
      \<or> fits_open ex_runtime ''b.fits'' = Inl ''Empty or corrupt FITS file''"
    by (simp add: open_b_fits)
  from main_stops_at_first_FormattingException [OF 1 2 3] show ?thesis .
qed

text \<open>
  Claim C1 as stated fails on three filenames of which the second does not open: the
  third would give a text, and \<^verbatim>\<open>main\<close> prints the text of the first only. The one
  logged message is the decoder's, which here does not name the file.
\<close>

theorem main_skips_third_file:
  "formatted ex_runtime
     \<lparr>arg_ext = None, arg_json = False, arg_filename = [''a.fits'', ''b.fits'', ''c.fits'']\<rparr>
     ''c.fits'' =
     Inr ''# HDU 0 in c.fits:\<newline>SIMPLE  = T\<newline>HISTORY made\<newline>NAXIS   = 0\<newline>HISTORY fixed\<newline>END'' \<and>
   printed (main ex_runtime
     \<lparr>arg_ext = None, arg_json = False, arg_filename = [''a.fits'', ''b.fits'', ''c.fits'']\<rparr>) =
     [''# HDU 0 in a.fits:\<newline>SIMPLE  = T\<newline>NAXIS   = 0\<newline>END\<newline>\<newline># HDU 1 in a.fits:\<newline>XTENSION= IMAGE\<newline>BITPIX  = 8\<newline>END''] \<and>
   logged (main ex_runtime
     \<lparr>arg_ext = None, arg_json = False, arg_filename = [''a.fits'', ''b.fits'', ''c.fits'']\<rparr>) =
     [''Empty or corrupt FITS file''] \<and>
   \<not> sublist ''b.fits'' ''Empty or corrupt FITS file''"
proof -
  let ?a = "\<lparr>arg_ext = None, arg_json = False, arg_filename = [''a.fits'', ''b.fits'', ''c.fits'']\<rparr>"
  have b: "formatted ex_runtime ?a ''b.fits'' = Inl (FormattingException ''Empty or corrupt FITS file'')"
    using open_b_fits by (rule formatted_open_fails)
  have m: "main ex_runtime ?a =
      \<lparr>printed = [''# HDU 0 in a.fits:\<newline>SIMPLE  = T\<newline>NAXIS   = 0\<newline>END\<newline>\<newline># HDU 1 in a.fits:\<newline>XTENSION= IMAGE\<newline>BITPIX  = 8\<newline>END''],
       logged = [''Empty or corrupt FITS file''], raised = None\<rparr>"
    by (simp add: main_def formatted_a_fits b)
  have s: "\<not> sublist ''b.fits'' ''Empty or corrupt FITS file''"
    by code_simp
  from m s show ?thesis
    by (simp add: formatted_c_fits)
qed

text \<open>
  Claim C2, as the code has it. For an extension that \<^verbatim>\<open>int\<close> rejects, that has a
  comma, and whose part after the last comma \<^verbatim>\<open>int\<close> rejects too, selecting the keys
  raises the \<^verbatim>\<open>ValueError\<close> of \<^verbatim>\<open>int\<close>. That is not a \<^verbatim>\<open>FormattingException\<close>, and
  the handler of \<^verbatim>\<open>main\<close> is for no other exception: when the first file opens,
  \<^verbatim>\<open>main\<close> prints nothing, logs nothing, and the \<^verbatim>\<open>ValueError\<close> leaves it.
\<close>

theorem malformed_version_raises_ValueError:
  assumes "int_of_str R e = None"
    and "CHR '','' \<in> set e"
    and "int_of_str R (last (split CHR '','' e)) = None"
  shows "hdukeys R hdulist (Some e) = Inl ValueError \<and>
         (arg_ext a = Some e \<and> arg_filename a = f # fs \<and> fits_open R f = Inr hdulist \<longrightarrow>
            main R a = \<lparr>printed = [], logged = [], raised = Some ValueError\<rparr>)"
proof -
  from assms(2) have "1 < length (split CHR '','' e)"
    by (simp only: split_many_iff)
  with assms(1,3) have k: "hdukeys R hdulist (Some e) = Inl ValueError"
    by (simp add: hdukeys_def)
  show ?thesis
  proof (intro conjI impI)
    show "hdukeys R hdulist (Some e) = Inl ValueError"
      by (rule k)
  next
    assume h: "arg_ext a = Some e \<and> arg_filename a = f # fs \<and> fits_open R f = Inr hdulist"
    then have "formatted R a f = Inl ValueError"
      by (simp add: formatted_def HeaderFormatter_def parse_def k)
    with h show "main R a = \<lparr>printed = [], logged = [], raised = Some ValueError\<rparr>"
      by (simp add: main_def)
  qed
qed

theorem malformed_version_raises_ValueError_witness:
  "hdukeys ex_runtime (two_units ''a.fits'') (Some ''SCI,x'') = Inl ValueError \<and>
   main ex_runtime \<lparr>arg_ext = Some ''SCI,x'', arg_json = True, arg_filename = [''a.fits'']\<rparr> =
     \<lparr>printed = [], logged = [], raised = Some ValueError\<rparr>"
proof -
  let ?a = "\<lparr>arg_ext = Some ''SCI,x'', arg_json = True, arg_filename = [''a.fits'']\<rparr>"
  have 1: "int_of_str ex_runtime ''SCI,x'' = None"
    by (simp add: ex_runtime_def py_int_SCI_x)
  have 2: "CHR '','' \<in> set ''SCI,x''"
    by simp
  have 3: "int_of_str ex_runtime (last (split CHR '','' ''SCI,x'')) = None"
    by (simp add: split_SCI_x ex_runtime_def py_int_x)
  have 4: "arg_ext ?a = Some ''SCI,x'' \<and> arg_filename ?a = ''a.fits'' # [] \<and>
      fits_open ex_runtime ''a.fits'' = Inr (two_units ''a.fits'')"
    by (simp add: ex_runtime_def ex_open_def)
  from malformed_version_raises_ValueError [OF 1 2 3, of "two_units ''a.fits''" ?a "''a.fits''" "[]"] 4
  show ?thesis by blast
qed

text \<open>
  Claim C2 as stated fails on the extension \<^verbatim>\<open>SCI,x\<close> and two files that open: the
  exception that ends the run is a \<^verbatim>\<open>ValueError\<close>, nothing is logged, and nothing is
  printed for either file.
\<close>

theorem main_does_not_catch_ValueError:
  "main ex_runtime
     \<lparr>arg_ext = Some ''SCI,x'', arg_json = False, arg_filename = [''a.fits'', ''c.fits'']\<rparr> =
   \<lparr>printed = [], logged = [], raised = Some ValueError\<rparr> \<and>
   (\<forall>message. ValueError \<noteq> FormattingException message)"
proof -
  let ?a = "\<lparr>arg_ext = Some ''SCI,x'', arg_json = False, arg_filename = [''a.fits'', ''c.fits'']\<rparr>"
  have o: "fits_open ex_runtime ''a.fits'' = Inr (two_units ''a.fits'')"
    by (simp add: ex_runtime_def ex_open_def)
  have k: "hdukeys ex_runtime (two_units ''a.fits'') (Some ''SCI,x'') = Inl ValueError"
    by (simp add: hdukeys_def ex_runtime_def py_int_SCI_x py_int_x split_SCI_x del: split.simps)
  have "formatted ex_runtime ?a ''a.fits'' = Inl ValueError"
    by (simp add: formatted_opened [OF o] parse_def k)
  then show ?thesis
    by (simp add: main_def)
qed

end
